theory Spec2Isabelle
  imports Main
begin

section \<open>Text\<close>

text \<open>
  A Python \<open>str\<close> is modelled as a \<open>string\<close>, the list of its characters. The model
  covers texts whose code points are below 256; the character classes below are the
  Unicode ones cut down to that range.
\<close>

text \<open>The characters for which \<open>str.isspace\<close> holds (also the regex class \<open>\s\<close>).\<close>

definition whitespace :: string where
  "whitespace = [CHR 0x09, CHR 0x0A, CHR 0x0B, CHR 0x0C, CHR 0x0D, CHR 0x1C, CHR 0x1D,
     CHR 0x1E, CHR 0x1F, CHR 0x20, CHR 0x85, CHR 0xA0]"

definition isspace :: "char \<Rightarrow> bool" where
  "isspace c = (c \<in> set whitespace)"

text \<open>\<open>str.strip()\<close>: whitespace removed at both ends.\<close>

definition strip :: "string \<Rightarrow> string" where
  "strip s = rev (dropWhile isspace (rev (dropWhile isspace s)))"

text \<open>\<open>str.startswith\<close>.\<close>

fun startswith :: "string \<Rightarrow> string \<Rightarrow> bool" where
  "startswith s [] = True"
| "startswith [] (p # ps) = False"
| "startswith (c # cs) (p # ps) = (c = p \<and> startswith cs ps)"

text \<open>Lower case of one character (\<open>str.lower\<close>, and the case folding of the \<open>re\<close> module).\<close>

definition lower :: "char \<Rightarrow> char" where
  "lower c = (let n = (of_char c :: nat)
              in if (65 \<le> n \<and> n \<le> 90) \<or> (192 \<le> n \<and> n \<le> 222 \<and> n \<noteq> 215)
                 then char_of (n + 32) else c)"

section \<open>The regular expressions of the \<open>re\<close> module that the program uses\<close>

text \<open>
  The patterns of the program are sequences of single-character atoms, each with a
  quantifier, with at most one capture group and the anchor \<open>$\<close>. An item records whether
  it stands inside the group. The matcher is the backtracking matcher of \<open>re\<close>: a greedy
  quantifier tries the longer match first, a lazy one the shorter.
\<close>

datatype atom = Lit char | Dot | Digit | OneOf string | NoneOf string

datatype quant = Once | Opt | Star | Plus | LazyStar | LazyPlus

datatype item = It atom quant bool | Eol

record flags =
  ignorecase :: bool
  dotall :: bool

definition noflags :: flags where
  "noflags = \<lparr>ignorecase = False, dotall = False\<rparr>"

definition IGNORECASE :: flags where
  "IGNORECASE = \<lparr>ignorecase = True, dotall = False\<rparr>"

definition IGNORECASE_DOTALL :: flags where
  "IGNORECASE_DOTALL = \<lparr>ignorecase = True, dotall = True\<rparr>"

fun atom_ok :: "flags \<Rightarrow> atom \<Rightarrow> char \<Rightarrow> bool" where
  "atom_ok f (Lit a) c = (if ignorecase f then lower c = lower a else c = a)"
| "atom_ok f Dot c = (dotall f \<or> c \<noteq> CHR 0x0A)"
| "atom_ok f Digit c = (c \<in> set ''0123456789'')"
| "atom_ok f (OneOf cs) c = (if ignorecase f then lower c \<in> set (map lower cs) else c \<in> set cs)"
| "atom_ok f (NoneOf cs) c = (if ignorecase f then lower c \<notin> set (map lower cs) else c \<notin> set cs)"

text \<open>A run of literal characters, and the capture group around a sequence of items.\<close>

definition lits :: "string \<Rightarrow> item list" where
  "lits s = map (\<lambda>c. It (Lit c) Once False) s"

fun grouped :: "item \<Rightarrow> item" where
  "grouped (It a q g) = It a q True"
| "grouped Eol = Eol"

definition group :: "item list \<Rightarrow> item list" where
  "group r = map grouped r"

text \<open>
  A matched character is added to the captured text when its item is in the group.
\<close>

fun keep :: "bool \<Rightarrow> char \<Rightarrow> (string \<times> string) option \<Rightarrow> (string \<times> string) option" where
  "keep g c None = None"
| "keep g c (Some (k, t)) = Some (if g then c # k else k, t)"

text \<open>
  \<open>rmatch f r s\<close> matches the pattern \<open>r\<close> at the start of \<open>s\<close> and returns the captured
  text and the rest of \<open>s\<close> after the match.
\<close>

fun rmatch :: "flags \<Rightarrow> item list \<Rightarrow> string \<Rightarrow> (string \<times> string) option" where
  "rmatch f [] s = Some ([], s)"
| "rmatch f (Eol # r) s = (if s = [] \<or> s = [CHR 0x0A] then rmatch f r s else None)"
| "rmatch f (It a Once g # r) s =
     (case s of [] \<Rightarrow> None
      | c # cs \<Rightarrow> if atom_ok f a c then keep g c (rmatch f r cs) else None)"
| "rmatch f (It a Opt g # r) s =
     (case s of [] \<Rightarrow> rmatch f r []
      | c # cs \<Rightarrow>
          if atom_ok f a c
          then (case rmatch f r cs of Some x \<Rightarrow> keep g c (Some x) | None \<Rightarrow> rmatch f r s)
          else rmatch f r s)"
| "rmatch f (It a Star g # r) s =
     (case s of [] \<Rightarrow> rmatch f r []
      | c # cs \<Rightarrow>
          if atom_ok f a c
          then (case rmatch f (It a Star g # r) cs of
                  Some x \<Rightarrow> keep g c (Some x) | None \<Rightarrow> rmatch f r s)
          else rmatch f r s)"
| "rmatch f (It a Plus g # r) s =
     (case s of [] \<Rightarrow> None
      | c # cs \<Rightarrow> if atom_ok f a c then keep g c (rmatch f (It a Star g # r) cs) else None)"
| "rmatch f (It a LazyStar g # r) s =
     (case rmatch f r s of Some x \<Rightarrow> Some x
      | None \<Rightarrow>
         (case s of [] \<Rightarrow> None
          | c # cs \<Rightarrow>
              if atom_ok f a c then keep g c (rmatch f (It a LazyStar g # r) cs) else None))"
| "rmatch f (It a LazyPlus g # r) s =
     (case s of [] \<Rightarrow> None
      | c # cs \<Rightarrow>
          if atom_ok f a c then keep g c (rmatch f (It a LazyStar g # r) cs) else None)"

text \<open>\<open>re.match\<close>: a match at the start of the text.\<close>

definition re_match :: "flags \<Rightarrow> item list \<Rightarrow> string \<Rightarrow> bool" where
  "re_match f r s = (rmatch f r s \<noteq> None)"

text \<open>\<open>re.search\<close>: the leftmost match; the result is the text of the group.\<close>

fun re_search :: "flags \<Rightarrow> item list \<Rightarrow> string \<Rightarrow> string option" where
  "re_search f r [] = (case rmatch f r [] of Some (k, t) \<Rightarrow> Some k | None \<Rightarrow> None)"
| "re_search f r (c # cs) =
     (case rmatch f r (c # cs) of Some (k, t) \<Rightarrow> Some k | None \<Rightarrow> re_search f r cs)"

text \<open>
  \<open>re.findall\<close> for a pattern with one group: the group texts of all matches, scanned
  from left to right, each search starting where the last match ended. No pattern of the
  program matches the empty text; after an empty match the scan moves on by one
  character.
\<close>

function re_findall :: "flags \<Rightarrow> item list \<Rightarrow> string \<Rightarrow> string list" where
  "re_findall f r s =
     (case rmatch f r s of
        Some (k, t) \<Rightarrow>
          k # (if length t < length s then re_findall f r t
               else (case s of [] \<Rightarrow> [] | c # cs \<Rightarrow> re_findall f r cs))
      | None \<Rightarrow> (case s of [] \<Rightarrow> [] | c # cs \<Rightarrow> re_findall f r cs))"
  by pat_completeness auto
termination
  by (relation "measure (\<lambda>(f, r, s). length s)") auto

declare re_findall.simps [simp del]

text \<open>\<open>re.sub(cls, '', s)\<close> for a one-character class: the characters of the class removed.\<close>

definition re_sub_remove :: "atom \<Rightarrow> string \<Rightarrow> string" where
  "re_sub_remove a s = filter (\<lambda>c. \<not> atom_ok noflags a c) s"

section \<open>The metrics variant: extraction strategies\<close>

text \<open>
  The structural marker of \<open>extract_all_values_by_pattern\<close> and
  \<open>extract_value_by_pattern\<close>: a fixed tag sequence, the group \<open>([^<]+)\<close>, and two
  closing tags.
\<close>

definition marker_prefix :: string where
  \<open>marker_prefix = ''</svg></span></div><dd class="static-box-value"><span class="sc-65e7f566-0 bxaIIt base-text"><span>''\<close>

definition marker_suffix :: string where
  "marker_suffix = ''</span></span>''"

definition marker_pattern :: "item list" where
  "marker_pattern = lits marker_prefix @ group [It (NoneOf ''<'') Plus False] @ lits marker_suffix"

text \<open>
  Strategy 1, \<open>extract_all_values_by_pattern\<close>: all matches of the marker; exactly three
  are the three metrics, any other number gives the default.
\<close>

definition extract_all_values_by_pattern :: "string \<Rightarrow> string \<times> string \<times> string" where
  "extract_all_values_by_pattern html_content =
     (let matches = re_findall noflags marker_pattern html_content
      in if length matches = 3
         then (strip (matches ! 0), strip (matches ! 1), strip (matches ! 2))
         else (''0'', ''0'', ''0''))"

text \<open>
  An optional text as Python tests it (\<open>if not x\<close>) and defaults it (\<open>x or "0"\<close>):
  \<open>None\<close> and the empty text are false.
\<close>

definition truthy :: "string option \<Rightarrow> bool" where
  "truthy x = (case x of None \<Rightarrow> False | Some s \<Rightarrow> s \<noteq> [])"

definition or0 :: "string option \<Rightarrow> string" where
  "or0 x = (case x of None \<Rightarrow> ''0'' | Some s \<Rightarrow> if s = [] then ''0'' else s)"

text \<open>
  Strategy 2, \<open>extract_value_by_pattern\<close>: the marker after the label (flags
  \<open>IGNORECASE | DOTALL\<close>), then the three backup patterns in order (flag \<open>IGNORECASE\<close>).
\<close>

definition label_pattern :: "string \<Rightarrow> item list" where
  "label_pattern label = lits label @ [It Dot LazyStar False] @ marker_pattern"

definition value_tail :: "item list" where
  "value_tail = [It (NoneOf ''>'') Star False, It (Lit (CHR ''>'')) Once False]
     @ group [It (NoneOf ''<'') Plus False] @ lits ''<''"

definition backup_patterns :: "string \<Rightarrow> item list list" where
  \<open>backup_patterns label =
     [lits label @ value_tail,
      lits ''"'' @ lits label @ lits ''"'' @ value_tail,
      lits ''class="'' @ [It (NoneOf ''"'') Star False] @ lits (map lower label)
        @ [It (NoneOf ''"'') Star False] @ lits ''"'' @ value_tail]\<close>

fun first_search :: "item list list \<Rightarrow> string \<Rightarrow> string option" where
  "first_search [] html_content = None"
| "first_search (pattern # ps) html_content =
     (case re_search IGNORECASE pattern html_content of
        Some v \<Rightarrow> Some (strip v)
      | None \<Rightarrow> first_search ps html_content)"

definition extract_value_by_pattern :: "string \<Rightarrow> string \<Rightarrow> string option" where
  "extract_value_by_pattern html_content label =
     (case re_search IGNORECASE_DOTALL (label_pattern label) html_content of
        Some v \<Rightarrow> Some (strip v)
      | None \<Rightarrow> first_search (backup_patterns label) html_content)"

text \<open>
  \<open>is_numeric_value\<close>: currency signs, commas, whitespace and percent signs removed,
  then a plain number, a number with a unit, or scientific notation. The patterns are
  tried with \<open>re.match\<close>, which matches at the start of the text, where their leading
  \<open>^\<close> holds.
\<close>

definition number_head :: "item list" where
  "number_head = [It Digit Plus False, It (Lit (CHR ''.'')) Opt False, It Digit Star False]"

definition numeric_patterns :: "item list list" where
  "numeric_patterns =
     [number_head @ [Eol],
      number_head @ [It (OneOf ''KMB'') Once False, Eol],
      number_head @ [It (Lit (CHR ''e'')) Once False, It (OneOf ''+-'') Opt False,
                     It Digit Plus False, Eol]]"

definition is_numeric_value :: "string \<Rightarrow> bool" where
  "is_numeric_value text =
     (let cleaned = re_sub_remove (OneOf (''$,'' @ whitespace @ ''%'')) text
      in list_ex (\<lambda>pattern. re_match IGNORECASE pattern cleaned) numeric_patterns)"

text \<open>
  Strategy 3, \<open>extract_value_by_class\<close>, queries the document tree that BeautifulSoup
  builds. The tree is given by its two queries: for a keyword, the stripped texts of the
  elements whose class matches it, and of those whose \<open>data-key\<close> attribute matches it,
  both in document order.
\<close>

record soup =
  class_texts :: "string \<Rightarrow> string list"
  datakey_texts :: "string \<Rightarrow> string list"

fun extract_value_by_class :: "soup \<Rightarrow> string list \<Rightarrow> string option" where
  "extract_value_by_class sp [] = None"
| "extract_value_by_class sp (keyword # kws) =
     (case find (\<lambda>t. t \<noteq> [] \<and> is_numeric_value t) (class_texts sp keyword) of
        Some t \<Rightarrow> Some t
      | None \<Rightarrow>
         (case find (\<lambda>t. t \<noteq> [] \<and> is_numeric_value t) (datakey_texts sp keyword) of
            Some t \<Rightarrow> Some t
          | None \<Rightarrow> extract_value_by_class sp kws))"

text \<open>
  Strategy 4, \<open>extract_from_script_data\<close>: the loop looks for the first pattern with a
  match, logs the number of matches and stops; the three results are never assigned.
\<close>

definition script_patterns :: "item list list" where
  \<open>script_patterns =
     [lits ''window.__NEXT_DATA__'' @ [It (OneOf whitespace) Star False, It (Lit (CHR ''='')) Once False,
        It (OneOf whitespace) Star False]
        @ group (lits ''{'' @ [It Dot LazyPlus False] @ lits ''}'') @ lits '';'',
      lits ''window.__INITIAL_STATE__'' @ [It (OneOf whitespace) Star False, It (Lit (CHR ''='')) Once False,
        It (OneOf whitespace) Star False]
        @ group (lits ''{'' @ [It Dot LazyPlus False] @ lits ''}'') @ lits '';'',
      lits ''"price":'' @ [It (OneOf whitespace) Star False] @ lits ''"''
        @ group [It (NoneOf ''"'') Plus False] @ lits ''"'',
      lits ''"fdv":'' @ [It (OneOf whitespace) Star False] @ lits ''"''
        @ group [It (NoneOf ''"'') Plus False] @ lits ''"'',
      lits ''"liquidity":'' @ [It (OneOf whitespace) Star False] @ lits ''"''
        @ group [It (NoneOf ''"'') Plus False] @ lits ''"'',
      lits ''"volume24h":'' @ [It (OneOf whitespace) Star False] @ lits ''"''
        @ group [It (NoneOf ''"'') Plus False] @ lits ''"'']\<close>

text \<open>The matches the loop logs before it stops, if any pattern has one.\<close>

fun script_matches :: "item list list \<Rightarrow> string \<Rightarrow> string list option" where
  "script_matches [] html_content = None"
| "script_matches (pattern # ps) html_content =
     (let matches = re_findall IGNORECASE pattern html_content
      in if matches \<noteq> [] then Some matches else script_matches ps html_content)"

definition extract_from_script_data :: "string \<Rightarrow> string \<times> string \<times> string" where
  "extract_from_script_data html_content =
     (let fdv = None; liquidity = None; volume_24h = None;
          logged = script_matches script_patterns html_content
      in (or0 fdv, or0 liquidity, or0 volume_24h))"

text \<open>
  \<open>parse_html_data\<close>. The first argument is the BeautifulSoup constructor: it gives the
  tree of a body, or \<open>None\<close> when it raises, which the function's handler turns into the
  default.
\<close>

definition parse_html_data :: "(string \<Rightarrow> soup option) \<Rightarrow> string \<Rightarrow> string \<times> string \<times> string" where
  "parse_html_data bs html_content =
     (case bs html_content of
        None \<Rightarrow> (''0'', ''0'', ''0'')
      | Some sp \<Rightarrow>
         (case extract_all_values_by_pattern html_content of
            (fdv, liquidity, volume_24h) \<Rightarrow>
              if fdv = ''0'' \<and> liquidity = ''0'' \<and> volume_24h = ''0''
              then
                (let fdv = extract_value_by_pattern html_content ''FDV'';
                     liquidity = extract_value_by_pattern html_content ''liq'';
                     volume_24h = extract_value_by_pattern html_content ''24h VOL'';
                     fdv = (if \<not> truthy fdv
                            then extract_value_by_class sp [''fdv'', ''market-cap'', ''fully-diluted'']
                            else fdv);
                     liquidity = (if \<not> truthy liquidity
                            then extract_value_by_class sp [''liquidity'', ''liq'']
                            else liquidity);
                     volume_24h = (if \<not> truthy volume_24h
                            then extract_value_by_class sp [''volume'', ''24h-volume'', ''vol'']
                            else volume_24h)
                 in if \<not> (truthy fdv \<or> truthy liquidity \<or> truthy volume_24h)
                    then (case extract_from_script_data html_content of
                            (f, l, v) \<Rightarrow> (or0 (Some f), or0 (Some l), or0 (Some v)))
                    else (or0 fdv, or0 liquidity, or0 volume_24h))
              else (or0 (Some fdv), or0 (Some liquidity), or0 (Some volume_24h))))"

section \<open>The metrics variant: fetching\<close>

text \<open>
  The outcome of \<open>session.get\<close>: a response with its status code and text, a
  \<open>requests.RequestException\<close> (a timeout or any transport error), or another exception.
\<close>

datatype http_outcome = Response nat string | RequestException | OtherException

datatype exn = Raised

text \<open>
  A cell of a table read by \<open>pandas.read_excel\<close>: a missing value (\<open>NaN\<close>), \<open>None\<close>
  (the content of a column the program adds), or a value, given by its \<open>str()\<close>.
\<close>

datatype cell = NaN | PyNone | Val string

text \<open>
  A data frame: the column names, and the rows in order, each with its index label and
  its cells.
\<close>

record frame =
  columns :: "string list"
  rows :: "(nat \<times> cell list) list"

text \<open>
  What the program meets outside itself: the answer to an HTTP request for a URL, the
  BeautifulSoup constructor, the table that \<open>read_excel\<close> loads (\<open>None\<close> when the file
  cannot be opened), and whether each of the two \<open>to_excel\<close> calls succeeds.
\<close>

record env =
  http_get :: "string \<Rightarrow> http_outcome"
  bs4 :: "string \<Rightarrow> soup option"
  read_excel :: "frame option"
  to_excel_result :: bool
  to_excel_original :: bool

definition base_url :: string where
  "base_url = ''https://dex.coinmarketcap.com/token''"

definition token_url :: "string \<Rightarrow> string \<Rightarrow> string" where
  "token_url network contract_address = base_url @ ''/'' @ network @ ''/'' @ contract_address @ ''/''"

definition fetch_token_data :: "env \<Rightarrow> string \<Rightarrow> string \<Rightarrow> exn + string \<times> string \<times> string" where
  "fetch_token_data e network contract_address =
     (let url = token_url network contract_address
      in case http_get e url of
           Response status_code text \<Rightarrow>
             if status_code = 200 then Inr (parse_html_data (bs4 e) text)
             else if status_code = 404 then Inr (''0'', ''0'', ''0'')
             else Inr (''0'', ''0'', ''0'')
         | RequestException \<Rightarrow> Inr (''0'', ''0'', ''0'')
         | OtherException \<Rightarrow> Inl Raised)"

section \<open>The metrics variant: rows and the table\<close>

definition isna :: "cell \<Rightarrow> bool" where
  "isna c = (c = NaN \<or> c = PyNone)"

fun str :: "cell \<Rightarrow> string" where
  "str NaN = ''nan''"
| "str PyNone = ''None''"
| "str (Val s) = s"

text \<open>
  \<open>process_single_row\<close>: a row with a missing or blank network or address gets the
  default; any exception is caught and gives the default.
\<close>

fun process_single_row :: "env \<Rightarrow> nat \<times> cell \<times> cell \<Rightarrow> nat \<times> string \<times> string \<times> string" where
  "process_single_row e (index, network, contract_address) =
     (if isna network \<or> isna contract_address \<or> strip (str network) = []
         \<or> strip (str contract_address) = []
      then (index, ''0'', ''0'', ''0'')
      else (case fetch_token_data e (strip (str network)) (strip (str contract_address)) of
              Inr (fdv, liquidity, volume_24h) \<Rightarrow> (index, fdv, liquidity, volume_24h)
            | Inl x \<Rightarrow> (index, ''0'', ''0'', ''0'')))"

text \<open>\<open>row.iloc[n]\<close>; a frame is rectangular, a cell a row does not hold is missing.\<close>

definition iloc :: "cell list \<Rightarrow> nat \<Rightarrow> cell" where
  "iloc cs n = (if n < length cs then cs ! n else NaN)"

text \<open>
  \<open>df[name] = None\<close> for a new column name, and the loop that adds columns
  \<open>Column_n\<close> until there are five. When a column of that name exists already the
  assignment overwrites it, the number of columns stays the same and the loop never
  ends: the result is \<open>None\<close>.
\<close>

definition add_column :: "frame \<Rightarrow> string \<Rightarrow> frame" where
  "add_column df name =
     \<lparr>columns = columns df @ [name], rows = map (\<lambda>(l, cs). (l, cs @ [PyNone])) (rows df)\<rparr>"

definition column_name :: "nat \<Rightarrow> string" where
  "column_name n = ''Column_'' @ [char_of (48 + n)]"

function pad_columns :: "frame \<Rightarrow> frame option" where
  "pad_columns df =
     (if length (columns df) < 5
      then (if column_name (length (columns df)) \<in> set (columns df) then None
            else pad_columns (add_column df (column_name (length (columns df)))))
      else Some df)"
  by pat_completeness auto
termination
  by (relation "measure (\<lambda>df. 5 - length (columns df))") (auto simp: add_column_def)

declare pad_columns.simps [simp del]

text \<open>
  \<open>df.columns = list(df.columns[:2]) + ['FDV', 'Liquidity', '24h Volume']\<close>: pandas
  raises when the number of names is not the number of columns.
\<close>

definition set_columns :: "frame \<Rightarrow> exn + frame" where
  "set_columns df =
     (let names = take 2 (columns df) @ [''FDV'', ''Liquidity'', ''24h Volume'']
      in if length names = length (columns df) then Inr (df\<lparr>columns := names\<rparr>) else Inl Raised)"

text \<open>
  \<open>df.loc[label, col] = v\<close>: the cell of every column of that name in every row of that
  label; a label the frame does not have adds a row. The column exists whenever the
  program writes.
\<close>

fun set_named :: "string list \<Rightarrow> string \<Rightarrow> cell \<Rightarrow> cell list \<Rightarrow> cell list" where
  "set_named (n # ns) col v (c # cs) = (if n = col then v else c) # set_named ns col v cs"
| "set_named ns col v cs = cs"

definition loc_set :: "frame \<Rightarrow> nat \<Rightarrow> string \<Rightarrow> cell \<Rightarrow> frame" where
  "loc_set df label col v =
     (if label \<in> set (map fst (rows df))
      then df\<lparr>rows := map (\<lambda>(l, cs). if l = label then (l, set_named (columns df) col v cs)
                                      else (l, cs)) (rows df)\<rparr>
      else df\<lparr>rows := rows df
             @ [(label, set_named (columns df) col v (replicate (length (columns df)) NaN))]\<rparr>)"

text \<open>
  A finished future: the index the pool keeps for it, and its result or its exception.
  The aggregating loop writes the three fields of the result at the result's index, or
  three defaults at the future's index. The writes are numbered 0, 1, 2.
\<close>

type_synonym future = "nat \<times> (exn + nat \<times> string \<times> string \<times> string)"

fun target :: "future \<Rightarrow> nat" where
  "target (index, Inr (result_index, fdv, liquidity, volume_24h)) = result_index"
| "target (index, Inl x) = index"

fun metrics :: "future \<Rightarrow> string list" where
  "metrics (index, Inr (result_index, fdv, liquidity, volume_24h)) = [fdv, liquidity, volume_24h]"
| "metrics (index, Inl x) = [''0'', ''0'', ''0'']"

definition metric_columns :: "string list" where
  "metric_columns = [''FDV'', ''Liquidity'', ''24h Volume'']"

definition write_field :: "frame \<Rightarrow> future \<Rightarrow> nat \<Rightarrow> frame" where
  "write_field df fut k = loc_set df (target fut) (metric_columns ! k) (Val (metrics fut ! k))"

definition record_result :: "frame \<Rightarrow> future \<Rightarrow> frame" where
  "record_result df fut = write_field (write_field (write_field df fut 0) fut 1) fut 2"

text \<open>
  \<open>process_excel_file\<close>. The second argument is the order in which the futures finish,
  as positions in the task list. The result is \<open>None\<close> when the call does not return;
  otherwise it holds the tasks submitted to the pool and the table saved, or the
  exception raised.
\<close>

record run =
  submitted :: "(nat \<times> cell \<times> cell) list"
  outcome :: "exn + frame"

definition make_tasks :: "frame \<Rightarrow> (nat \<times> cell \<times> cell) list" where
  "make_tasks df = map (\<lambda>(index, row). (index, iloc row 0, iloc row 1)) (rows df)"

definition submit :: "env \<Rightarrow> (nat \<times> cell \<times> cell) list \<Rightarrow> future list" where
  "submit e tasks = map (\<lambda>task. (fst task, Inr (process_single_row e task))) tasks"

definition as_completed :: "future list \<Rightarrow> nat list \<Rightarrow> future list" where
  "as_completed futures order = map (\<lambda>i. futures ! i) (filter (\<lambda>i. i < length futures) order)"

definition process_excel_file :: "env \<Rightarrow> nat list \<Rightarrow> run option" where
  "process_excel_file e order =
     (case read_excel e of
        None \<Rightarrow> Some \<lparr>submitted = [], outcome = Inl Raised\<rparr>
      | Some df0 \<Rightarrow>
         (case pad_columns df0 of
            None \<Rightarrow> None
          | Some df1 \<Rightarrow>
             (case set_columns df1 of
                Inl x \<Rightarrow> Some \<lparr>submitted = [], outcome = Inl x\<rparr>
              | Inr df \<Rightarrow>
                 (let tasks = make_tasks df;
                      futures = submit e tasks;
                      df' = foldl record_result df (as_completed futures order)
                  in Some \<lparr>submitted = tasks,
                            outcome = (if to_excel_result e \<and> to_excel_original e
                                       then Inr df' else Inl Raised)\<rparr>))))"

text \<open>
  The same loop in single steps, for the states between the writes. Workers finish
  their tasks in any order and at any time; the main thread takes a finished future,
  enters the exclusive section, writes the three fields one after the other and leaves
  the section.
\<close>

record agg =
  table :: frame
  lock :: bool
  running :: "(nat \<times> cell \<times> cell) list"
  finished :: "future list"
  current :: "(future \<times> nat) option"




section \<open>The decimals variant\<close>

text \<open>
  \<open>int(s, 16)\<close> as CPython parses it: Unicode whitespace above ASCII becomes a blank and
  any other character above ASCII is invalid; then leading ASCII whitespace, a sign, a
  prefix \<open>0x\<close> or \<open>0X\<close> with one underscore allowed after it, the digits with single
  underscores between them, and trailing ASCII whitespace. \<open>None\<close> stands for the
  \<open>ValueError\<close>.
\<close>

definition to_ascii :: "char \<Rightarrow> char" where
  "to_ascii c = (if (of_char c :: nat) < 127 then c else if isspace c then CHR '' '' else CHR ''?'')"

definition c_isspace :: "char \<Rightarrow> bool" where
  "c_isspace c = (c \<in> set [CHR 0x09, CHR 0x0A, CHR 0x0B, CHR 0x0C, CHR 0x0D, CHR 0x20])"

definition hexval :: "char \<Rightarrow> nat option" where
  "hexval c = (let n = (of_char c :: nat)
               in if 48 \<le> n \<and> n \<le> 57 then Some (n - 48)
                  else if 97 \<le> n \<and> n \<le> 102 then Some (n - 87)
                  else if 65 \<le> n \<and> n \<le> 70 then Some (n - 55)
                  else None)"

text \<open>
  The digit loop: \<open>u\<close> tells whether the last character was an underscore, \<open>acc\<close> is the
  value so far. It stops at the first character that is neither a digit nor an
  underscore and returns the value and the rest.
\<close>

fun digits_loop :: "bool \<Rightarrow> int \<Rightarrow> string \<Rightarrow> (int \<times> string) option" where
  "digits_loop u acc [] = (if u then None else Some (acc, []))"
| "digits_loop u acc (c # cs) =
     (if c = CHR ''_'' then (if u then None else digits_loop True acc cs)
      else (case hexval c of
              Some d \<Rightarrow> digits_loop False (16 * acc + int d) cs
            | None \<Rightarrow> if u then None else Some (acc, c # cs)))"

definition py_int16 :: "string \<Rightarrow> int option" where
  "py_int16 s =
     (let t = dropWhile c_isspace (map to_ascii s);
          negative = startswith t ''-'';
          t = (if startswith t ''+'' \<or> startswith t ''-'' then tl t else t);
          t = (if startswith t ''0x'' \<or> startswith t ''0X''
               then (if startswith (drop 2 t) ''_'' then drop 3 t else drop 2 t)
               else t)
      in case t of
           [] \<Rightarrow> None
         | c # cs \<Rightarrow>
            if hexval c = None then None
            else (case digits_loop False 0 t of
                    None \<Rightarrow> None
                  | Some (v, rest) \<Rightarrow>
                      if dropWhile c_isspace rest = [] then Some (if negative then - v else v)
                      else None))"

text \<open>
  \<open>hex_to_decimal\<close>: the prefix \<open>0x\<close> and the leading zeros removed, the rest parsed in
  base 16; the handler turns a parse error into 18.
\<close>

definition lstrip0 :: "string \<Rightarrow> string" where
  "lstrip0 s = dropWhile (\<lambda>c. c = CHR ''0'') s"

definition hex_digits :: "string \<Rightarrow> string" where
  "hex_digits hex_result =
     (let hex_result = (if startswith hex_result ''0x'' then drop 2 hex_result else hex_result);
          hex_result = lstrip0 hex_result
      in if hex_result = [] then ''0'' else hex_result)"

definition hex_to_decimal :: "string \<Rightarrow> int" where
  "hex_to_decimal hex_result = (case py_int16 (hex_digits hex_result) of Some v \<Rightarrow> v | None \<Rightarrow> 18)"

definition rpc_endpoints :: "(string \<times> string) list" where
  "rpc_endpoints =
     [(''ethereum'', ''https://eth.llamarpc.com''),
      (''bsc'', ''https://bsc-dataseed.binance.org''),
      (''polygon'', ''https://polygon-rpc.com''),
      (''arbitrum'', ''https://arb1.arbitrum.io/rpc''),
      (''avalanche'', ''https://api.avax.network/ext/bc/C/rpc''),
      (''fantom'', ''https://rpc.ftm.tools''),
      (''optimism'', ''https://mainnet.optimism.io''),
      (''base'', ''https://mainnet.base.org'')]"

definition decimals_signature :: string where
  "decimals_signature = ''0x313ce567''"

definition get_rpc_endpoint :: "string \<Rightarrow> string option" where
  "get_rpc_endpoint network = map_of rpc_endpoints (map lower network)"

text \<open>
  The answer to the JSON-RPC request: an exception of \<open>requests.post\<close>, or a response
  with its status code and body. A body is a JSON object with or without the field
  \<open>result\<close>, or anything else (\<open>response.json()\<close> or the lookup raises, or the value
  holds no such field). A field value is a text or a value of another type, given by
  its truth value.
\<close>

datatype json_value = JStr string | JOther bool

datatype rpc_body = JsonObject "json_value option" | NotAnObject

datatype rpc_outcome = RpcResponse nat rpc_body | RpcException

text \<open>A request: the URL, the contract address and the call data.\<close>

type_synonym request = "string \<times> string \<times> string"

record denv =
  rpc_post :: "request \<Rightarrow> rpc_outcome"

fun json_truthy :: "json_value \<Rightarrow> bool" where
  "json_truthy (JStr s) = (s \<noteq> [])"
| "json_truthy (JOther b) = b"

definition call_contract_method :: "denv \<Rightarrow> string \<Rightarrow> string \<Rightarrow> string \<Rightarrow> json_value option" where
  "call_contract_method e rpc_url contract_address method_signature =
     (case rpc_post e (rpc_url, contract_address, method_signature) of
        RpcResponse status_code body \<Rightarrow>
          if status_code = 200
          then (case body of
                  JsonObject (Some r) \<Rightarrow> if json_truthy r then Some r else None
                | JsonObject None \<Rightarrow> None
                | NotAnObject \<Rightarrow> None)
          else None
      | RpcException \<Rightarrow> None)"

text \<open>
  \<open>get_token_decimals\<close>, with the requests it issues. A result that is not a text makes
  \<open>hex_to_decimal\<close> raise inside its own handler, which gives 18.
\<close>

definition get_token_decimals :: "denv \<Rightarrow> string \<Rightarrow> string \<Rightarrow> int \<times> request list" where
  "get_token_decimals e network contract_address =
     (case get_rpc_endpoint network of
        None \<Rightarrow> (18, [])
      | Some rpc_url \<Rightarrow>
          if rpc_url = [] then (18, [])
          else
            (let contract_address = (if \<not> startswith contract_address ''0x''
                                     then ''0x'' @ contract_address else contract_address);
                 result = call_contract_method e rpc_url contract_address decimals_signature
             in (case result of
                   Some (JStr s) \<Rightarrow> if s \<noteq> [] then hex_to_decimal s else 18
                 | Some (JOther b) \<Rightarrow> 18
                 | None \<Rightarrow> 18,
                 [(rpc_url, contract_address, decimals_signature)])))"

text \<open>
  The loop of \<open>process_excel\<close> over the rows, each given by its first two cells: a row
  whose network or address reads \<open>nan\<close> gets 18 without a request (\<open>pd.isna\<close> of a text is
  false). The result is the decimals column and the requests issued, in order.
\<close>

definition process_excel_row :: "denv \<Rightarrow> cell \<times> cell \<Rightarrow> int \<times> request list" where
  "process_excel_row e row =
     (let network = strip (str (fst row));
          contract_address = strip (str (snd row))
      in if network = ''nan'' \<or> contract_address = ''nan'' then (18, [])
         else get_token_decimals e network contract_address)"

definition process_excel :: "denv \<Rightarrow> (cell \<times> cell) list \<Rightarrow> int list \<times> request list" where
  "process_excel e sheet =
     (map (\<lambda>row. fst (process_excel_row e row)) sheet,
      concat (map (\<lambda>row. snd (process_excel_row e row)) sheet))"

section \<open>Reference notions and example inputs\<close>

text \<open>
  The marker occurs at the start of a text when the text begins with the tag sequence,
  followed by a non-empty text without \<open><\<close> and the two closing tags. The result is
  the text between them and the rest after the marker.
\<close>

definition marker_here :: "string \<Rightarrow> (string \<times> string) option" where
  "marker_here s =
     (if startswith s marker_prefix
      then (let r = drop (length marker_prefix) s;
                k = takeWhile (\<lambda>c. c \<noteq> CHR ''<'') r;
                t = dropWhile (\<lambda>c. c \<noteq> CHR ''<'') r
            in if k \<noteq> [] \<and> startswith t marker_suffix
               then Some (k, drop (length marker_suffix) t) else None)
      else None)"

text \<open>
  The occurrences of the marker in a document: the texts captured at every position at
  which the marker occurs, in document order.
\<close>

fun marker_occurrences :: "string \<Rightarrow> string list" where
  "marker_occurrences [] = []"
| "marker_occurrences (c # cs) =
     (case marker_here (c # cs) of
        Some (k, t) \<Rightarrow> k # marker_occurrences cs
      | None \<Rightarrow> marker_occurrences cs)"

text \<open>\<open>no_start p u\<close>: at no position of \<open>u\<close> does \<open>p\<close> begin, not even cut off by the end of \<open>u\<close>.\<close>

fun no_start :: "string \<Rightarrow> string \<Rightarrow> bool" where
  "no_start p [] = True"
| "no_start p (c # cs) = (\<not> startswith p (c # cs) \<and> \<not> startswith (c # cs) p \<and> no_start p cs)"

text \<open>A marker around a text, and pages with three and with two markers.\<close>

definition marked :: "string \<Rightarrow> string" where
  "marked v = marker_prefix @ v @ marker_suffix"

definition page3 :: string where
  "page3 = ''<html>'' @ marked ''$1.2M'' @ ''<p>'' @ marked '' $500K '' @ marked ''$45.3K'' @ ''</html>''"

definition page2 :: string where
  "page2 = ''<html>'' @ marked ''$1.2M'' @ ''<p>'' @ marked ''$45.3K'' @ ''</html>''"

text \<open>
  A page with three markers that all hold \<open>0\<close>, followed by a labelled value; a body
  that holds the quoted pair for \<open>fdv\<close>; a document tree in which no element matches a keyword.
\<close>

definition page0 :: string where
  "page0 = marked ''0'' @ marked ''0'' @ marked ''0'' @ ''FDV>123<''"

definition script_page :: string where
  \<open>script_page = ''"fdv":"123"''\<close>

definition nosoup :: soup where
  "nosoup = \<lparr>class_texts = (\<lambda>keyword. []), datakey_texts = (\<lambda>keyword. [])\<rparr>"

text \<open>
  An environment that answers one URL with status 200 and the page with three markers
  and every other URL with status 404, and one in which every request times out.
\<close>

definition example_table :: frame where
  "example_table =
     \<lparr>columns = [''network'', ''address''],
      rows = [(0, [Val ''bsc'', Val ''0xabc'']), (1, [Val ''eth'', NaN]),
              (2, [Val ''bsc'', Val ''0xdef''])]\<rparr>"

definition example_env :: env where
  "example_env =
     \<lparr>http_get = (\<lambda>url. if url = ''https://dex.coinmarketcap.com/token/bsc/0xabc/''
                           then Response 200 page3 else Response 404 []),
      bs4 = (\<lambda>body. Some nosoup),
      read_excel = Some example_table,
      to_excel_result = True,
      to_excel_original = True\<rparr>"

definition timeout_env :: env where
  "timeout_env = example_env\<lparr>http_get := (\<lambda>url. RequestException)\<rparr>"

text \<open>
  A hex string is a non-empty text of hexadecimal digits after an optional prefix
  \<open>0x\<close>; its value is the big-endian number of the digits.
\<close>

definition strip0x :: "string \<Rightarrow> string" where
  "strip0x s = (if startswith s ''0x'' then drop 2 s else s)"

definition is_hex_digit :: "char \<Rightarrow> bool" where
  "is_hex_digit c = (hexval c \<noteq> None)"

definition hex_string :: "string \<Rightarrow> bool" where
  "hex_string s = (s \<noteq> [] \<and> list_all is_hex_digit (strip0x s))"

definition hex_value :: "string \<Rightarrow> int" where
  "hex_value ds = foldl (\<lambda>acc c. 16 * acc + int (case hexval c of Some d \<Rightarrow> d | None \<Rightarrow> 0)) 0 ds"


text \<open>The address as the request carries it, and a node that gives one answer to every request.\<close>

definition with0x :: "string \<Rightarrow> string" where
  "with0x a = (if \<not> startswith a ''0x'' then ''0x'' @ a else a)"

definition node :: "rpc_outcome \<Rightarrow> denv" where
  "node r = \<lparr>rpc_post = (\<lambda>req. r)\<rparr>"

definition usdc :: string where
  "usdc = ''0xA0b86991c6218b36c1d19D4a2e9Eb0cE3606eB48''"

text \<open>
  The answers that carry no result: an exception, a status other than 200, a body
  that is no JSON object or has no field \<open>result\<close>, or a field value that is false
  (empty, null, zero).
\<close>

fun no_result :: "rpc_outcome \<Rightarrow> bool" where
  "no_result RpcException = True"
| "no_result (RpcResponse st NotAnObject) = True"
| "no_result (RpcResponse st (JsonObject None)) = True"
| "no_result (RpcResponse st (JsonObject (Some v))) = (st \<noteq> 200 \<or> \<not> json_truthy v)"




text \<open>
  A change of the cells of the rows with a given label; the row that the three writes of
  a future leave; and the row of a table after all the futures of a list have been
  recorded: updated by the future that targets its label, if there is one.
\<close>

definition on_label :: "nat \<Rightarrow> (cell list \<Rightarrow> cell list) \<Rightarrow> nat \<times> cell list \<Rightarrow> nat \<times> cell list" where
  "on_label l g r = (if fst r = l then (fst r, g (snd r)) else r)"

definition updated :: "string list \<Rightarrow> future \<Rightarrow> cell list \<Rightarrow> cell list" where
  "updated cols fut cs =
     set_named cols ''24h Volume'' (Val (metrics fut ! 2))
       (set_named cols ''Liquidity'' (Val (metrics fut ! 1))
         (set_named cols ''FDV'' (Val (metrics fut ! 0)) cs))"

definition final_row :: "string list \<Rightarrow> future list \<Rightarrow> nat \<times> cell list \<Rightarrow> nat \<times> cell list" where
  "final_row cols futs r =
     (case find (\<lambda>fut. target fut = fst r) futs of
        Some fut \<Rightarrow> (fst r, updated cols fut (snd r))
      | None \<Rightarrow> r)"




text \<open>The example table after the padding loop, and after the columns have been renamed.\<close>

definition example_padded :: frame where
  "example_padded =
     \<lparr>columns = [''network'', ''address'', ''Column_2'', ''Column_3'', ''Column_4''],
      rows = [(0, [Val ''bsc'', Val ''0xabc'', PyNone, PyNone, PyNone]),
              (1, [Val ''eth'', NaN, PyNone, PyNone, PyNone]),
              (2, [Val ''bsc'', Val ''0xdef'', PyNone, PyNone, PyNone])]\<rparr>"

definition example_prepared :: frame where
  "example_prepared = example_padded\<lparr>columns := [''network'', ''address'', ''FDV'', ''Liquidity'', ''24h Volume'']\<rparr>"

text \<open>A table with six columns, and one whose only column is named like a padding column.\<close>

definition six_columns :: frame where
  "six_columns = \<lparr>columns = [''a'', ''b'', ''c'', ''d'', ''e'', ''f''], rows = []\<rparr>"

definition column_1_only :: frame where
  "column_1_only = \<lparr>columns = [''Column_1''], rows = []\<rparr>"







text \<open>
  The state of the example run after the worker of the first task has finished and the
  main thread has recorded its result.
\<close>

definition example_state :: agg where
  "example_state =
     \<lparr>table = record_result example_prepared (0, Inr (0, ''$1.2M'', ''$500K'', ''$45.3K'')),
      lock = False,
      running = [(1, Val ''eth'', NaN), (2, Val ''bsc'', Val ''0xdef'')],
      finished = [],
      current = None\<rparr>"

section \<open>Evaluation\<close>

text \<open>The lower case of a character from its bits, for evaluation.\<close>

lemma lower_Char [code]:
  "lower (Char b0 b1 b2 b3 b4 b5 b6 b7) =
     (if b6 \<and> \<not> b5 \<and>
         (if b7 then \<not> (b4 \<and> b2 \<and> b1 \<and> b0)
          else (b0 \<or> b1 \<or> b2 \<or> b3 \<or> b4) \<and> \<not> (b4 \<and> b3 \<and> (b2 \<or> b1 \<and> b0)))
      then Char b0 b1 b2 b3 b4 True b6 b7
      else Char b0 b1 b2 b3 b4 b5 b6 b7)"
  by (cases b0; cases b1; cases b2; cases b3; cases b4; cases b5; cases b6; cases b7;
      simp add: lower_def char_of_eq_iff)

section \<open>Strategy 1 and the occurrences of the marker\<close>

lemma keep_False [simp]: "keep False c x = x"
  by (cases x) auto

lemma startswith_append: "startswith s p \<longleftrightarrow> (\<exists>t. s = p @ t)"
  by (induction s p rule: startswith.induct) auto

lemma rmatch_lits:
  "\<not> ignorecase f \<Longrightarrow>
     rmatch f (lits p @ r) s = (if startswith s p then rmatch f r (drop (length p) s) else None)"
proof (induction p arbitrary: s)
  case Nil
  then show ?case by (simp add: lits_def)
next
  case (Cons a p)
  then show ?case by (cases s) (auto simp: lits_def)
qed

text \<open>
  A greedy run of characters other than \<open>x\<close>, followed by literals that begin with
  \<open>x\<close>, takes all the characters up to the first \<open>x\<close>.
\<close>

lemma rmatch_star_until:
  assumes "\<not> ignorecase f" "q \<noteq> []" "hd q = x"
  shows "rmatch f (It (NoneOf [x]) Star True # lits q) s =
     (let k = takeWhile (\<lambda>c. c \<noteq> x) s; t = dropWhile (\<lambda>c. c \<noteq> x) s
      in if startswith t q then Some (k, drop (length q) t) else None)"
proof (induction s)
  case Nil
  then show ?case using assms rmatch_lits[of f q "[]" "[]"] by simp
next
  case (Cons c s)
  show ?case
  proof (cases "c = x")
    case True
    then show ?thesis using assms rmatch_lits[of f q "[]" "c # s"] by simp
  next
    case False
    have "\<not> startswith (c # s) q" using False assms by (cases q) auto
    then have "rmatch f (lits q) (c # s) = None"
      using assms rmatch_lits[of f q "[]" "c # s"] by simp
    then show ?thesis using False assms Cons by (auto simp: Let_def split: option.splits)
  qed
qed

lemma rmatch_plus_until:
  assumes "\<not> ignorecase f" "q \<noteq> []" "hd q = x"
  shows "rmatch f (It (NoneOf [x]) Plus True # lits q) s =
     (let k = takeWhile (\<lambda>c. c \<noteq> x) s; t = dropWhile (\<lambda>c. c \<noteq> x) s
      in if k \<noteq> [] \<and> startswith t q then Some (k, drop (length q) t) else None)"
proof (cases s)
  case Nil
  then show ?thesis by simp
next
  case (Cons c cs)
  then show ?thesis using assms(1)
    by (simp add: rmatch_star_until[OF assms] Let_def del: rmatch.simps(5))
qed

lemma marker_suffix_hd: "marker_suffix \<noteq> [] \<and> hd marker_suffix = CHR ''<''"
  by (simp add: marker_suffix_def)

text \<open>The matcher on the marker pattern finds the marker at the start of a text.\<close>

lemma rmatch_marker: "rmatch noflags marker_pattern s = marker_here s"
  unfolding marker_pattern_def marker_here_def group_def
  using rmatch_plus_until[of noflags marker_suffix "CHR ''<''"] marker_suffix_hd
  by (simp add: rmatch_lits noflags_def Let_def del: rmatch.simps(6))

lemma takeWhile_until: "x \<notin> set k \<Longrightarrow> takeWhile (\<lambda>c. c \<noteq> x) (k @ x # r) = k"
  by (induction k) auto

lemma dropWhile_until: "x \<notin> set k \<Longrightarrow> dropWhile (\<lambda>c. c \<noteq> x) (k @ x # r) = x # r"
  by (induction k) auto

lemma marker_here_Some_iff:
  "marker_here s = Some (k, t) \<longleftrightarrow>
     s = marker_prefix @ k @ marker_suffix @ t \<and> k \<noteq> [] \<and> CHR ''<'' \<notin> set k"
proof
  assume h: "marker_here s = Some (k, t)"
  then obtain r where r: "s = marker_prefix @ r"
    by (auto simp: marker_here_def startswith_append split: if_splits)
  from h r have k: "k = takeWhile (\<lambda>c. c \<noteq> CHR ''<'') r" and k0: "k \<noteq> []"
    and t: "dropWhile (\<lambda>c. c \<noteq> CHR ''<'') r = marker_suffix @ t"
    by (auto simp: marker_here_def Let_def startswith_append split: if_splits)
  have "r = k @ marker_suffix @ t"
    using takeWhile_dropWhile_id[of "\<lambda>c. c \<noteq> CHR ''<''" r] k t by simp
  moreover have "CHR ''<'' \<notin> set k"
    using k by (auto dest: set_takeWhileD)
  ultimately show "s = marker_prefix @ k @ marker_suffix @ t \<and> k \<noteq> [] \<and> CHR ''<'' \<notin> set k"
    using r k0 by simp
next
  assume h: "s = marker_prefix @ k @ marker_suffix @ t \<and> k \<noteq> [] \<and> CHR ''<'' \<notin> set k"
  obtain u where u: "marker_suffix @ t = CHR ''<'' # u"
    by (simp add: marker_suffix_def)
  have 1: "takeWhile (\<lambda>c. c \<noteq> CHR ''<'') (k @ marker_suffix @ t) = k"
    and 2: "dropWhile (\<lambda>c. c \<noteq> CHR ''<'') (k @ marker_suffix @ t) = marker_suffix @ t"
    using h by (simp_all add: u takeWhile_until dropWhile_until)
  have 3: "startswith s marker_prefix" and 4: "startswith (marker_suffix @ t) marker_suffix"
    using h by (auto simp only: startswith_append)
  show "marker_here s = Some (k, t)"
    unfolding marker_here_def using h 1 2 3 4 by (simp add: Let_def)
qed

text \<open>
  No marker begins inside another one: the marker begins with \<open></sv\<close>, which occurs
  nowhere else in the tag sequence or the closing tags, and the captured text holds no
  \<open><\<close>. So the scan of \<open>re.findall\<close>, which goes on after the end of a match, misses no
  occurrence.
\<close>

lemma startswith_append_cases:
  "startswith (v @ t) p \<Longrightarrow> startswith p v \<or> startswith v p"
  by (auto simp: startswith_append append_eq_append_conv2)

lemma no_start_suffix:
  "no_start p (a @ v) \<Longrightarrow> v \<noteq> [] \<Longrightarrow> \<not> startswith (v @ t) p"
proof (induction a)
  case Nil
  then have "\<not> startswith p v \<and> \<not> startswith v p" by (cases v) auto
  then show ?case using startswith_append_cases by blast
next
  case (Cons c a)
  then show ?case by simp
qed

lemma marker_here_start: "marker_here s \<noteq> None \<Longrightarrow> startswith s ''</sv''"
proof -
  assume "marker_here s \<noteq> None"
  then obtain r where "s = marker_prefix @ r"
    by (auto simp: marker_here_def startswith_append split: if_splits)
  then show ?thesis by (simp add: marker_prefix_def)
qed

lemma marker_occurrences_skip:
  "(\<And>a v. u = a @ v \<Longrightarrow> v \<noteq> [] \<Longrightarrow> marker_here (v @ t) = None) \<Longrightarrow>
     marker_occurrences (u @ t) = marker_occurrences t"
proof (induction u)
  case Nil
  then show ?case by simp
next
  case (Cons c u)
  have "marker_here ((c # u) @ t) = None" using Cons.prems[of "[]" "c # u"] by simp
  moreover have "marker_occurrences (u @ t) = marker_occurrences t"
  proof (rule Cons.IH)
    fix a v assume "u = a @ v" "v \<noteq> []"
    then show "marker_here (v @ t) = None" using Cons.prems[of "c # a" v] by simp
  qed
  ultimately show ?case by simp
qed

lemma no_start_in_prefix: "no_start ''</sv'' (tl marker_prefix)"
  by (simp add: marker_prefix_def)

lemma no_start_in_suffix: "no_start ''</sv'' marker_suffix"
  by (simp add: marker_suffix_def)

lemma marker_occurrences_match:
  assumes "marker_here s = Some (k, t)"
  shows "marker_occurrences s = k # marker_occurrences t"
proof -
  from assms have s: "s = marker_prefix @ k @ marker_suffix @ t" and k: "CHR ''<'' \<notin> set k"
    by (simp_all add: marker_here_Some_iff)
  obtain c where c: "marker_prefix = c # tl marker_prefix"
    by (simp add: marker_prefix_def)
  have 1: "marker_occurrences (marker_suffix @ t) = marker_occurrences t"
  proof (rule marker_occurrences_skip)
    fix a v assume "marker_suffix = a @ v" "v \<noteq> []"
    then have "\<not> startswith (v @ t) ''</sv''"
      using no_start_suffix[of "''</sv''" a v t] no_start_in_suffix by simp
    then show "marker_here (v @ t) = None" using marker_here_start by blast
  qed
  have 2: "marker_occurrences (k @ marker_suffix @ t) = marker_occurrences (marker_suffix @ t)"
  proof (rule marker_occurrences_skip)
    fix a v assume "k = a @ v" "v \<noteq> []"
    then have "hd v \<noteq> CHR ''<''" using k by (cases v) auto
    then have "\<not> startswith (v @ marker_suffix @ t) ''</sv''"
      using \<open>v \<noteq> []\<close> by (cases v) auto
    then show "marker_here (v @ marker_suffix @ t) = None" using marker_here_start by blast
  qed
  have 3: "marker_occurrences (tl marker_prefix @ k @ marker_suffix @ t)
             = marker_occurrences (k @ marker_suffix @ t)"
  proof (rule marker_occurrences_skip)
    fix a v assume "tl marker_prefix = a @ v" "v \<noteq> []"
    then have "\<not> startswith (v @ k @ marker_suffix @ t) ''</sv''"
      using no_start_suffix[of "''</sv''" a v] no_start_in_prefix by simp
    then show "marker_here (v @ k @ marker_suffix @ t) = None" using marker_here_start by blast
  qed
  have "s = c # (tl marker_prefix @ k @ marker_suffix @ t)"
    using s c by (metis append_Cons)
  then have "marker_occurrences s = k # marker_occurrences (tl marker_prefix @ k @ marker_suffix @ t)"
    using assms by simp
  then show ?thesis using 1 2 3 by simp
qed

text \<open>\<open>re.findall\<close> with the marker pattern returns the occurrences of the marker.\<close>

lemma re_findall_marker: "re_findall noflags marker_pattern s = marker_occurrences s"
proof (induction s rule: length_induct)
  case (1 s)
  show ?case
  proof (cases "marker_here s")
    case None
    show ?thesis
    proof (cases s)
      case Nil
      then show ?thesis using None by (simp add: re_findall.simps[of _ _ "[]"] rmatch_marker)
    next
      case (Cons c cs)
      then have "re_findall noflags marker_pattern s = re_findall noflags marker_pattern cs"
        using None by (simp add: re_findall.simps[of _ _ "c # cs"] rmatch_marker)
      then show ?thesis using 1 Cons None by simp
    qed
  next
    case (Some kt)
    obtain k t where kt: "kt = (k, t)" by (cases kt)
    have s: "s = marker_prefix @ k @ marker_suffix @ t"
      using Some kt by (simp add: marker_here_Some_iff)
    then have len: "length t < length s" by (simp add: marker_suffix_def)
    have "re_findall noflags marker_pattern s = k # re_findall noflags marker_pattern t"
      using Some kt len by (simp add: re_findall.simps[of _ _ s] rmatch_marker)
    then show ?thesis using 1 len marker_occurrences_match[of s k t] Some kt by simp
  qed
qed

lemma extract_all_values_by_pattern_occurrences:
  "extract_all_values_by_pattern html =
     (case marker_occurrences html of
        [a, b, c] \<Rightarrow> (strip a, strip b, strip c)
      | _ \<Rightarrow> (''0'', ''0'', ''0''))"
proof (cases "length (marker_occurrences html) = 3")
  case True
  then obtain a b c where "marker_occurrences html = [a, b, c]"
    by (auto simp: length_Suc_conv numeral_3_eq_3)
  then show ?thesis by (simp add: extract_all_values_by_pattern_def re_findall_marker)
next
  case False
  then have "extract_all_values_by_pattern html = (''0'', ''0'', ''0'')"
    by (simp add: extract_all_values_by_pattern_def re_findall_marker)
  moreover have "(case marker_occurrences html of
        [a, b, c] \<Rightarrow> (strip a, strip b, strip c)
      | _ \<Rightarrow> (''0'', ''0'', ''0'')) = (''0'', ''0'', ''0'')"
    using False by (auto split: list.splits)
  ultimately show ?thesis by simp
qed

text \<open>
  C1. When the marker occurs exactly three times in the raw HTML, with captured texts
  \<open>a\<close>, \<open>b\<close>, \<open>c\<close> in document order, strategy 1 returns them stripped as
  (fdv, liquidity, volume24h); when it occurs any other number of times (0, 1, 2, 4 or
  more), strategy 1 returns \<open>("0", "0", "0")\<close>.
\<close>

theorem extract_all_values_by_pattern_exactly_three:
  "(marker_occurrences html = [a, b, c] \<longrightarrow>
      extract_all_values_by_pattern html = (strip a, strip b, strip c))
   \<and> (length (marker_occurrences html) \<noteq> 3 \<longrightarrow>
      extract_all_values_by_pattern html = (''0'', ''0'', ''0''))"
  by (auto simp: extract_all_values_by_pattern_occurrences split: list.splits)

lemma marker_occurrences_page3: "marker_occurrences page3 = [''$1.2M'', '' $500K '', ''$45.3K'']"
  by code_simp

lemma marker_occurrences_page2: "marker_occurrences page2 = [''$1.2M'', ''$45.3K'']"
  by code_simp

lemma strip_examples:
  "strip ''$1.2M'' = ''$1.2M''" "strip '' $500K '' = ''$500K''" "strip ''$45.3K'' = ''$45.3K''"
  by (simp_all add: strip_def isspace_def whitespace_def)

theorem extract_all_values_by_pattern_exactly_three_witness:
  "marker_occurrences page3 = [''$1.2M'', '' $500K '', ''$45.3K'']
   \<and> extract_all_values_by_pattern page3 = (''$1.2M'', ''$500K'', ''$45.3K'')
   \<and> length (marker_occurrences page2) \<noteq> 3
   \<and> extract_all_values_by_pattern page2 = (''0'', ''0'', ''0'')"
  using extract_all_values_by_pattern_exactly_three[of page3 "''$1.2M''" "'' $500K ''" "''$45.3K''"]
    extract_all_values_by_pattern_exactly_three[of page2]
  by (simp add: marker_occurrences_page3 marker_occurrences_page2 strip_examples)

section \<open>The pipeline and strategy 1\<close>

lemma or0_Some: "or0 (Some s) = (if s = [] then ''0'' else s)"
  by (simp add: or0_def)

text \<open>
  C2, as the code has it. For a body that BeautifulSoup accepts and in which the marker
  occurs exactly three times: when the stripped triple of strategy 1 is not
  \<open>("0", "0", "0")\<close>, \<open>parse_html_data\<close> returns it with an empty text replaced by
  \<open>"0"\<close>, whatever the document tree holds, so unchanged when none of the three is
  empty. Strategies 2 to 4 are consulted when strategy 1 returns \<open>("0", "0", "0")\<close>,
  which three occurrences that all read \<open>0\<close> give as well.
\<close>

theorem parse_html_data_commits_to_strategy_1:
  assumes "bs html = Some sp"
    and "marker_occurrences html = [a, b, c]"
    and "(strip a, strip b, strip c) \<noteq> (''0'', ''0'', ''0'')"
  shows "parse_html_data bs html = (or0 (Some (strip a)), or0 (Some (strip b)), or0 (Some (strip c)))
    \<and> (strip a \<noteq> [] \<and> strip b \<noteq> [] \<and> strip c \<noteq> [] \<longrightarrow>
         parse_html_data bs html = (strip a, strip b, strip c))"
proof -
  have s1: "extract_all_values_by_pattern html = (strip a, strip b, strip c)"
    using assms(2) by (simp add: extract_all_values_by_pattern_occurrences)
  have "parse_html_data bs html
          = (or0 (Some (strip a)), or0 (Some (strip b)), or0 (Some (strip c)))"
    unfolding parse_html_data_def using assms(1,3) s1 by auto
  then show ?thesis by (simp add: or0_Some)
qed

theorem parse_html_data_commits_to_strategy_1_witness:
  "marker_occurrences page3 = [''$1.2M'', '' $500K '', ''$45.3K'']
   \<and> parse_html_data (\<lambda>body. Some nosoup) page3 = (''$1.2M'', ''$500K'', ''$45.3K'')"
  using parse_html_data_commits_to_strategy_1[of "\<lambda>body. Some nosoup" page3 nosoup
      "''$1.2M''" "'' $500K ''" "''$45.3K''"]
  by (simp add: marker_occurrences_page3 strip_examples or0_Some)

text \<open>
  C2 as stated fails: in \<open>page0\<close> the marker occurs exactly three times, strategy 1
  returns the three captured texts \<open>("0", "0", "0")\<close>, and \<open>parse_html_data\<close> goes on to
  strategy 2, which finds \<open>123\<close> for the first metric.
\<close>

lemma marker_occurrences_page0: "marker_occurrences page0 = [''0'', ''0'', ''0'']"
  by code_simp

lemma extract_value_by_pattern_page0:
  "extract_value_by_pattern page0 ''FDV'' = Some ''123''"
  "extract_value_by_pattern page0 ''liq'' = None"
  "extract_value_by_pattern page0 ''24h VOL'' = None"
  by code_simp+

theorem parse_html_data_overrides_three_zeros:
  "marker_occurrences page0 = [''0'', ''0'', ''0'']
   \<and> extract_all_values_by_pattern page0 = (''0'', ''0'', ''0'')
   \<and> parse_html_data (\<lambda>body. Some nosoup) page0 = (''123'', ''0'', ''0'')"
proof -
  have s1: "extract_all_values_by_pattern page0 = (''0'', ''0'', ''0'')"
    by (simp add: extract_all_values_by_pattern_occurrences marker_occurrences_page0
        strip_def isspace_def whitespace_def)
  have "parse_html_data (\<lambda>body. Some nosoup) page0 = (''123'', ''0'', ''0'')"
    unfolding parse_html_data_def
    by (simp add: s1 extract_value_by_pattern_page0 truthy_def or0_def nosoup_def Let_def)
  then show ?thesis using s1 marker_occurrences_page0 by simp
qed

section \<open>Fetching\<close>

text \<open>
  C5. \<open>fetch_token_data\<close> returns the default \<open>("0", "0", "0")\<close>, and does not raise, when
  the response status is 404 or any other status than 200 and when the request times
  out or fails with a transport error; for a response with status 200 it returns the
  metrics parsed from the body, and a result other than the default comes only from
  such a response.
\<close>

theorem fetch_token_data_default_on_failure:
  "(http_get e (token_url n a) = Response st body \<and> st \<noteq> 200 \<longrightarrow>
      fetch_token_data e n a = Inr (''0'', ''0'', ''0''))
   \<and> (http_get e (token_url n a) = RequestException \<longrightarrow>
      fetch_token_data e n a = Inr (''0'', ''0'', ''0''))
   \<and> (http_get e (token_url n a) = Response 200 body \<longrightarrow>
      fetch_token_data e n a = Inr (parse_html_data (bs4 e) body))
   \<and> (fetch_token_data e n a = Inr t \<and> t \<noteq> (''0'', ''0'', ''0'') \<longrightarrow>
      (\<exists>b. http_get e (token_url n a) = Response 200 b \<and> t = parse_html_data (bs4 e) b))"
  by (auto simp: fetch_token_data_def split: http_outcome.splits if_splits)

lemma parse_html_data_page3:
  "parse_html_data (\<lambda>body. Some nosoup) page3 = (''$1.2M'', ''$500K'', ''$45.3K'')"
proof -
  have "extract_all_values_by_pattern page3 = (''$1.2M'', ''$500K'', ''$45.3K'')"
    by (simp add: extract_all_values_by_pattern_occurrences marker_occurrences_page3
        strip_examples)
  then show ?thesis by (simp add: parse_html_data_def or0_def)
qed

lemma example_env_simps:
  "http_get example_env (token_url ''bsc'' ''0xabc'') = Response 200 page3"
  "http_get example_env (token_url ''eth'' ''0x1'') = Response 404 []"
  "bs4 example_env = (\<lambda>body. Some nosoup)"
  "http_get timeout_env u = RequestException"
  by (simp_all add: example_env_def timeout_env_def token_url_def base_url_def)

theorem fetch_token_data_default_on_failure_witness:
  "fetch_token_data example_env ''eth'' ''0x1'' = Inr (''0'', ''0'', ''0'')
   \<and> fetch_token_data timeout_env ''bsc'' ''0xabc'' = Inr (''0'', ''0'', ''0'')
   \<and> fetch_token_data example_env ''bsc'' ''0xabc'' = Inr (''$1.2M'', ''$500K'', ''$45.3K'')
   \<and> (\<exists>b. http_get example_env (token_url ''bsc'' ''0xabc'') = Response 200 b
        \<and> (''$1.2M'', ''$500K'', ''$45.3K'') = parse_html_data (bs4 example_env) b)"
proof -
  note T = fetch_token_data_default_on_failure
  have 1: "fetch_token_data example_env ''eth'' ''0x1'' = Inr (''0'', ''0'', ''0'')"
    by (rule T[of example_env "''eth''" "''0x1''" 404 "[]", THEN conjunct1, THEN mp])
      (simp add: example_env_simps)
  have 2: "fetch_token_data timeout_env ''bsc'' ''0xabc'' = Inr (''0'', ''0'', ''0'')"
    by (rule T[of timeout_env "''bsc''" "''0xabc''", THEN conjunct2, THEN conjunct1, THEN mp])
      (simp add: example_env_simps)
  have "fetch_token_data example_env ''bsc'' ''0xabc''
          = Inr (parse_html_data (bs4 example_env) page3)"
    by (rule T[of example_env "''bsc''" "''0xabc''" _ page3,
          THEN conjunct2, THEN conjunct2, THEN conjunct1, THEN mp])
      (simp add: example_env_simps)
  then have 3: "fetch_token_data example_env ''bsc'' ''0xabc''
          = Inr (''$1.2M'', ''$500K'', ''$45.3K'')"
    by (simp only: example_env_simps parse_html_data_page3)
  have 4: "\<exists>b. http_get example_env (token_url ''bsc'' ''0xabc'') = Response 200 b
        \<and> (''$1.2M'', ''$500K'', ''$45.3K'') = parse_html_data (bs4 example_env) b"
    by (rule T[of example_env "''bsc''" "''0xabc''" _ _ "(''$1.2M'', ''$500K'', ''$45.3K'')",
          THEN conjunct2, THEN conjunct2, THEN conjunct2, THEN mp])
      (simp add: 3)
  show ?thesis using 1 2 3 4 by blast
qed

section \<open>Strategy 4\<close>

lemma extract_from_script_data_default:
  "extract_from_script_data html = (''0'', ''0'', ''0'')"
  by (simp add: extract_from_script_data_def or0_def)

text \<open>
  C6 does not hold of the code. In the body \<open>"fdv":"123"\<close> the pattern for the pair
  \<open>"fdv":"..."\<close> matches and captures \<open>123\<close>, but \<open>extract_from_script_data\<close> returns the
  default for all three metrics, and so does the whole pipeline.
\<close>

theorem extract_from_script_data_drops_match:
  "re_findall IGNORECASE (script_patterns ! 3) script_page = [''123'']
   \<and> extract_from_script_data script_page = (''0'', ''0'', ''0'')
   \<and> parse_html_data (\<lambda>body. Some nosoup) script_page = (''0'', ''0'', ''0'')"
proof -
  have 1: "re_findall IGNORECASE (script_patterns ! 3) script_page = [''123'']"
    by code_simp
  have 2: "parse_html_data (\<lambda>body. Some nosoup) script_page = (''0'', ''0'', ''0'')"
    by code_simp
  show ?thesis using 1 2 extract_from_script_data_default by simp
qed

section \<open>Decoding the result of the call\<close>

lemma hexval_underscore: "hexval (CHR ''_'') = None"
  by (simp add: hexval_def)

lemma is_hex_digit_plain:
  assumes "is_hex_digit c"
  shows "to_ascii c = c" "\<not> c_isspace c" "c \<noteq> CHR ''_''" "c \<noteq> CHR ''+''" "c \<noteq> CHR ''-''"
    "c \<noteq> CHR ''x''" "c \<noteq> CHR ''X''"
proof -
  have "(of_char c :: nat) < 127"
    using assms by (auto simp: is_hex_digit_def hexval_def Let_def split: if_splits)
  then show "to_ascii c = c" by (simp add: to_ascii_def)
  show "\<not> c_isspace c" using assms by (auto simp: is_hex_digit_def hexval_def c_isspace_def)
  show "c \<noteq> CHR ''_''" "c \<noteq> CHR ''+''" "c \<noteq> CHR ''-''" "c \<noteq> CHR ''x''" "c \<noteq> CHR ''X''"
    using assms by (auto simp: is_hex_digit_def hexval_def)
qed

lemma digits_loop_hex:
  "list_all is_hex_digit ds \<Longrightarrow>
     digits_loop False acc ds =
       Some (foldl (\<lambda>acc c. 16 * acc + int (case hexval c of Some d \<Rightarrow> d | None \<Rightarrow> 0)) acc ds, [])"
proof (induction ds arbitrary: acc)
  case Nil
  then show ?case by simp
next
  case (Cons c ds)
  then have "is_hex_digit c" by simp
  then obtain d where "hexval c = Some d" and "c \<noteq> CHR ''_''"
    using is_hex_digit_plain(3) by (auto simp: is_hex_digit_def)
  then show ?case using Cons by simp
qed

lemma py_int16_hex:
  assumes "h \<noteq> []" "list_all is_hex_digit h"
  shows "py_int16 h = Some (hex_value h)"
proof -
  obtain c cs where h: "h = c # cs" using assms(1) by (cases h) auto
  have c: "is_hex_digit c" using assms(2) h by simp
  have m: "map to_ascii h = h" using assms(2) by (induction h) (auto simp: is_hex_digit_plain)
  have d: "dropWhile c_isspace h = h" using h c by (simp add: is_hex_digit_plain)
  have s: "\<not> startswith h ''+''" "\<not> startswith h ''-''" using h c by (auto simp: is_hex_digit_plain)
  have x: "\<not> startswith h ''0x''" "\<not> startswith h ''0X''"
  proof -
    { fix y assume "y = CHR ''x'' \<or> y = CHR ''X''" "startswith h [CHR ''0'', y]"
      then obtain r where "h = CHR ''0'' # y # r" by (auto simp: startswith_append)
      then have "is_hex_digit y" using assms(2) by simp
      then have False using \<open>y = CHR ''x'' \<or> y = CHR ''X''\<close> is_hex_digit_plain(6,7) by blast }
    then show "\<not> startswith h ''0x''" "\<not> startswith h ''0X''" by blast+
  qed
  have "py_int16 h =
      (case h of [] \<Rightarrow> None
       | c # cs \<Rightarrow>
          if hexval c = None then None
          else (case digits_loop False 0 h of
                  None \<Rightarrow> None
                | Some (v, rest) \<Rightarrow>
                    if dropWhile c_isspace rest = [] then Some v else None))"
    unfolding py_int16_def Let_def by (simp only: m d s x if_False simp_thms)
  moreover have "hexval c \<noteq> None" using c by (simp add: is_hex_digit_def)
  ultimately show ?thesis
    using digits_loop_hex[OF assms(2), of 0] by (simp add: h hex_value_def)
qed

lemma hex_value_lstrip0: "hex_value (lstrip0 d) = hex_value d"
proof -
  have "\<And>d. foldl (\<lambda>acc c. 16 * acc + int (case hexval c of Some d \<Rightarrow> d | None \<Rightarrow> 0)) 0
            (dropWhile (\<lambda>c. c = CHR ''0'') d)
        = foldl (\<lambda>acc c. 16 * acc + int (case hexval c of Some d \<Rightarrow> d | None \<Rightarrow> 0)) 0 d"
  proof -
    fix d show "?thesis d" by (induction d) (auto simp: hexval_def)
  qed
  then show ?thesis by (simp add: hex_value_def lstrip0_def)
qed

lemma hex_digits_strip0x:
  "hex_digits s = (if lstrip0 (strip0x s) = [] then ''0'' else lstrip0 (strip0x s))"
  by (simp add: hex_digits_def strip0x_def Let_def)

lemma hex_to_decimal_hex:
  assumes "list_all is_hex_digit (strip0x s)"
  shows "hex_to_decimal s = hex_value (strip0x s)"
proof (cases "lstrip0 (strip0x s) = []")
  case True
  have "py_int16 ''0'' = Some (hex_value ''0'')"
    by (rule py_int16_hex) (simp_all add: is_hex_digit_def hexval_def)
  moreover have "hex_value ''0'' = hex_value (lstrip0 (strip0x s))"
    using True by (simp add: hex_value_def hexval_def)
  moreover have "hex_value (lstrip0 (strip0x s)) = hex_value (strip0x s)"
    by (rule hex_value_lstrip0)
  moreover have "hex_digits s = ''0''"
    using True by (simp add: hex_digits_strip0x)
  ultimately show ?thesis
    by (simp add: hex_to_decimal_def)
next
  case False
  have "list_all is_hex_digit (lstrip0 (strip0x s))"
    using assms unfolding lstrip0_def list_all_iff by (auto dest: set_dropWhileD)
  then have "py_int16 (lstrip0 (strip0x s)) = Some (hex_value (lstrip0 (strip0x s)))"
    using False by (rule py_int16_hex[rotated])
  then show ?thesis
    using False by (simp add: hex_to_decimal_def hex_digits_strip0x hex_value_lstrip0)
qed













section \<open>The decimals of a token\<close>

lemma get_rpc_endpoint_nonempty: "get_rpc_endpoint network = Some url \<Longrightarrow> url \<noteq> []"
proof -
  assume "get_rpc_endpoint network = Some url"
  then have "(map lower network, url) \<in> set rpc_endpoints"
    unfolding get_rpc_endpoint_def by (rule map_of_SomeD)
  then show ?thesis by (auto simp: rpc_endpoints_def)
qed

lemma call_contract_method_None:
  "call_contract_method e url a d = None \<longleftrightarrow> no_result (rpc_post e (url, a, d))"
proof (cases "rpc_post e (url, a, d)")
  case (RpcResponse st b)
  show ?thesis
  proof (cases b)
    case (JsonObject r)
    then show ?thesis using RpcResponse by (cases r) (auto simp: call_contract_method_def)
  next
    case NotAnObject
    then show ?thesis using RpcResponse by (simp add: call_contract_method_def)
  qed
next
  case RpcException
  then show ?thesis by (simp add: call_contract_method_def)
qed

lemma get_token_decimals_supported:
  assumes "get_rpc_endpoint network = Some url"
  shows "get_token_decimals e network a =
     (case call_contract_method e url (with0x a) decimals_signature of
        Some (JStr s) \<Rightarrow> if s \<noteq> [] then hex_to_decimal s else 18
      | Some (JOther b) \<Rightarrow> 18
      | None \<Rightarrow> 18,
      [(url, with0x a, decimals_signature)])"
  using assms get_rpc_endpoint_nonempty[OF assms]
  by (simp add: get_token_decimals_def with0x_def Let_def)


text \<open>
  C4, as the code has it. On an unsupported network the result is 18 and no request is
  issued. On a supported network, a response with status 200 whose result is a
  non-empty hex string (with or without the prefix \<open>0x\<close>, with any leading zeros) gives
  the big-endian value of its digits; an answer without a result (an exception, another
  status, no JSON object, no field, an empty or false value), a result that is no text,
  and a text that the base-16 parser rejects give 18. A text that is no hex string but
  that the parser accepts is decoded and not replaced by 18.
\<close>

theorem get_token_decimals_decodes:
  "(get_rpc_endpoint network = None \<longrightarrow> get_token_decimals e network a = (18, []))
   \<and> (get_rpc_endpoint network = Some url \<longrightarrow>
        (rpc_post e (url, with0x a, decimals_signature) = RpcResponse 200 (JsonObject (Some (JStr s)))
           \<and> hex_string s \<longrightarrow>
         get_token_decimals e network a
           = (hex_value (strip0x s), [(url, with0x a, decimals_signature)]))
      \<and> (no_result (rpc_post e (url, with0x a, decimals_signature)) \<longrightarrow>
         fst (get_token_decimals e network a) = 18)
      \<and> (rpc_post e (url, with0x a, decimals_signature) = RpcResponse 200 (JsonObject (Some (JOther True)))
           \<longrightarrow> fst (get_token_decimals e network a) = 18)
      \<and> (rpc_post e (url, with0x a, decimals_signature) = RpcResponse 200 (JsonObject (Some (JStr s)))
           \<and> py_int16 (hex_digits s) = None \<longrightarrow>
         fst (get_token_decimals e network a) = 18))"
proof -
  have 1: "get_token_decimals e network a = (18, [])" if "get_rpc_endpoint network = None"
    using that by (simp add: get_token_decimals_def)
  have 2: "get_token_decimals e network a
           = (hex_value (strip0x s), [(url, with0x a, decimals_signature)])"
    if "get_rpc_endpoint network = Some url"
      "rpc_post e (url, with0x a, decimals_signature) = RpcResponse 200 (JsonObject (Some (JStr s)))"
      "hex_string s"
  proof -
    have "call_contract_method e url (with0x a) decimals_signature = Some (JStr s)"
      using that(2,3) by (simp add: call_contract_method_def hex_string_def)
    moreover have "hex_to_decimal s = hex_value (strip0x s)"
      using that(3) by (simp add: hex_string_def hex_to_decimal_hex)
    ultimately show ?thesis
      using that(3) by (simp add: get_token_decimals_supported[OF that(1)] hex_string_def)
  qed
  have 3: "fst (get_token_decimals e network a) = 18"
    if "get_rpc_endpoint network = Some url"
      "no_result (rpc_post e (url, with0x a, decimals_signature))"
    using that(2) by (simp add: get_token_decimals_supported[OF that(1)]
        call_contract_method_None[symmetric])
  have 4: "fst (get_token_decimals e network a) = 18"
    if "get_rpc_endpoint network = Some url"
      "rpc_post e (url, with0x a, decimals_signature) = RpcResponse 200 (JsonObject (Some (JOther True)))"
    using that(2) by (simp add: get_token_decimals_supported[OF that(1)] call_contract_method_def)
  have 5: "fst (get_token_decimals e network a) = 18"
    if "get_rpc_endpoint network = Some url"
      "rpc_post e (url, with0x a, decimals_signature) = RpcResponse 200 (JsonObject (Some (JStr s)))"
      "py_int16 (hex_digits s) = None"
    using that(2,3) by (simp add: get_token_decimals_supported[OF that(1)] call_contract_method_def
        hex_to_decimal_def)
  show ?thesis using 1 2 3 4 5 by blast
qed

lemma decimals_examples:
  "get_rpc_endpoint ''ethereum'' = Some ''https://eth.llamarpc.com''"
  "get_rpc_endpoint ''solana'' = None"
  "hex_string ''0x06''"
  "hex_value (strip0x ''0x06'') = 6"
  "py_int16 (hex_digits ''zz'') = None"
  "with0x usdc = usdc"
  "decimals_signature = ''0x313ce567''"
  by code_simp+

theorem get_token_decimals_decodes_witness:
  "get_token_decimals (node (RpcResponse 200 (JsonObject (Some (JStr ''0x06''))))) ''ethereum'' usdc
     = (6, [(''https://eth.llamarpc.com'', usdc, ''0x313ce567'')])
   \<and> get_token_decimals (node (RpcResponse 200 (JsonObject (Some (JStr ''0x06''))))) ''solana'' usdc
     = (18, [])
   \<and> fst (get_token_decimals (node (RpcResponse 200 (JsonObject None))) ''ethereum'' usdc) = 18
   \<and> fst (get_token_decimals (node RpcException) ''ethereum'' usdc) = 18
   \<and> fst (get_token_decimals (node (RpcResponse 200 (JsonObject (Some (JStr ''zz''))))) ''ethereum'' usdc) = 18"
proof -
  note T = get_token_decimals_decodes
  note E = decimals_examples
  let ?url = "''https://eth.llamarpc.com''"
  have 1: "get_token_decimals (node (RpcResponse 200 (JsonObject (Some (JStr ''0x06''))))) ''ethereum'' usdc
     = (hex_value (strip0x ''0x06''), [(?url, with0x usdc, decimals_signature)])"
    by (rule T[where network = "''ethereum''" and url = ?url and s = "''0x06''",
          THEN conjunct2, THEN mp, OF E(1), THEN conjunct1, THEN mp])
      (simp add: node_def E(3))
  have 2: "get_token_decimals (node (RpcResponse 200 (JsonObject (Some (JStr ''0x06''))))) ''solana'' usdc
     = (18, [])"
    by (rule T[where network = "''solana''", THEN conjunct1, THEN mp, OF E(2)])
  have 3: "fst (get_token_decimals (node (RpcResponse 200 (JsonObject None))) ''ethereum'' usdc) = 18"
    by (rule T[where network = "''ethereum''" and url = ?url,
          THEN conjunct2, THEN mp, OF E(1), THEN conjunct2, THEN conjunct1, THEN mp])
      (simp add: node_def)
  have 4: "fst (get_token_decimals (node RpcException) ''ethereum'' usdc) = 18"
    by (rule T[where network = "''ethereum''" and url = ?url,
          THEN conjunct2, THEN mp, OF E(1), THEN conjunct2, THEN conjunct1, THEN mp])
      (simp add: node_def)
  have 5: "fst (get_token_decimals (node (RpcResponse 200 (JsonObject (Some (JStr ''zz''))))) ''ethereum'' usdc) = 18"
    by (rule T[where network = "''ethereum''" and url = ?url and s = "''zz''",
          THEN conjunct2, THEN mp, OF E(1), THEN conjunct2, THEN conjunct2, THEN conjunct2, THEN mp])
      (simp add: node_def E(5))
  show ?thesis using 1 2 3 4 5 by (simp only: E(4,6,7) simp_thms)
qed

text \<open>
  C4 as stated fails for a malformed result: \<open>-a\<close> is no hex string, and the
  decimals returned are \<open>-10\<close>, not 18.
\<close>

theorem get_token_decimals_negative:
  "\<not> hex_string ''-a''
   \<and> get_token_decimals (node (RpcResponse 200 (JsonObject (Some (JStr ''-a''))))) ''bsc'' ''0xabc''
       = (- 10, [(''https://bsc-dataseed.binance.org'', ''0xabc'', ''0x313ce567'')])"
  by code_simp


section \<open>Rows of the decimals variant\<close>

text \<open>
  Whatever the node answers, a row with a blank address on a supported network issues
  one request, for the address \<open>0x\<close>.
\<close>

lemma blank_address_request:
  assumes "strip a = []" and "strip n \<noteq> ''nan''" and "get_rpc_endpoint (strip n) = Some url"
  shows "snd (process_excel_row e (Val n, Val a)) = [(url, ''0x'', decimals_signature)]"
proof -
  have "url \<noteq> []" using assms(3) by (rule get_rpc_endpoint_nonempty)
  then show ?thesis
    using assms by (simp add: process_excel_row_def get_token_decimals_def Let_def)
qed

text \<open>
  C3 does not hold of the code. For a row whose address cell holds one blank, on a
  supported network, \<open>process_excel\<close> issues a request for the address \<open>0x\<close> and stores
  what the node answers (here 6); only a cell that is missing (\<open>NaN\<close>) gets 18 without a
  request.
\<close>

theorem process_excel_blank_address:
  "process_excel (node (RpcResponse 200 (JsonObject (Some (JStr ''0x06''))))) [(Val ''bsc'', Val '' '')]
     = ([6], [(''https://bsc-dataseed.binance.org'', ''0x'', ''0x313ce567'')])
   \<and> process_excel (node (RpcResponse 200 (JsonObject (Some (JStr ''0x06''))))) [(Val ''bsc'', NaN)]
     = ([18], [])"
  by code_simp

section \<open>Writing results into the table\<close>

lemma fst_on_label [simp]: "fst (on_label l g r) = fst r"
  by (simp add: on_label_def)

lemma on_label_twice: "on_label l g (on_label l h r) = on_label l (\<lambda>cs. g (h cs)) r"
  by (simp add: on_label_def)

lemma columns_loc_set [simp]: "columns (loc_set df label col v) = columns df"
  by (simp add: loc_set_def)

lemma rows_loc_set:
  "label \<in> set (map fst (rows df)) \<Longrightarrow>
     rows (loc_set df label col v) = map (on_label label (set_named (columns df) col v)) (rows df)"
  by (auto simp: loc_set_def on_label_def case_prod_unfold)

lemma columns_write_field [simp]: "columns (write_field df fut k) = columns df"
  by (simp add: write_field_def)

lemma rows_write_field:
  "target fut \<in> set (map fst (rows df)) \<Longrightarrow>
     rows (write_field df fut k) =
       map (on_label (target fut)
             (set_named (columns df) (metric_columns ! k) (Val (metrics fut ! k)))) (rows df)"
  unfolding write_field_def by (rule rows_loc_set)

lemma labels_write_field:
  "target fut \<in> set (map fst (rows df)) \<Longrightarrow>
     map fst (rows (write_field df fut k)) = map fst (rows df)"
  by (simp add: rows_write_field)

lemma updated_fun:
  "updated cols fut =
     (\<lambda>cs. set_named cols ''24h Volume'' (Val (metrics fut ! 2))
       (set_named cols ''Liquidity'' (Val (metrics fut ! 1))
         (set_named cols ''FDV'' (Val (metrics fut ! 0)) cs)))"
  by (rule ext) (simp add: updated_def)

lemma columns_record_result [simp]: "columns (record_result df fut) = columns df"
  by (simp add: record_result_def)

lemma rows_record_result:
  assumes "target fut \<in> set (map fst (rows df))"
  shows "rows (record_result df fut) = map (on_label (target fut) (updated (columns df) fut)) (rows df)"
proof -
  define d0 where "d0 = write_field df fut 0"
  define d1 where "d1 = write_field d0 fut 1"
  have p0: "target fut \<in> set (map fst (rows d0))"
    unfolding d0_def labels_write_field[OF assms] by (rule assms)
  have p1: "target fut \<in> set (map fst (rows d1))"
    unfolding d1_def labels_write_field[OF p0] by (rule p0)
  have c0: "columns d0 = columns df" unfolding d0_def by simp
  have c1: "columns d1 = columns df" unfolding d1_def d0_def by simp
  have r0: "rows d0 = map (on_label (target fut)
                 (set_named (columns df) ''FDV'' (Val (metrics fut ! 0)))) (rows df)"
    unfolding d0_def rows_write_field[OF assms] by (simp add: metric_columns_def)
  have r1: "rows d1 = map (on_label (target fut)
                 (set_named (columns df) ''Liquidity'' (Val (metrics fut ! 1)))) (rows d0)"
    unfolding d1_def rows_write_field[OF p0] c0 by (simp add: metric_columns_def)
  have r2: "rows (write_field d1 fut 2) = map (on_label (target fut)
                 (set_named (columns df) ''24h Volume'' (Val (metrics fut ! 2)))) (rows d1)"
    unfolding rows_write_field[OF p1] c1 by (simp add: metric_columns_def)
  have "rows (record_result df fut) = rows (write_field d1 fut 2)"
    by (simp only: record_result_def d1_def d0_def)
  also have "\<dots> = map (on_label (target fut) (updated (columns df) fut)) (rows df)"
    unfolding r2 r1 r0 by (simp add: on_label_twice updated_fun)
  finally show ?thesis .
qed

lemma labels_record_result:
  "target fut \<in> set (map fst (rows df)) \<Longrightarrow>
     map fst (rows (record_result df fut)) = map fst (rows df)"
  by (simp add: rows_record_result)


lemma fst_final_row [simp]: "fst (final_row cols futs r) = fst r"
  by (simp add: final_row_def split: option.splits)





section \<open>The prepared table and the futures\<close>


















section \<open>Failures of a run\<close>







text \<open>
  Two more inputs that can be opened and for which the call does not complete: a table
  with six columns, for which the renaming raises, and a table whose only column is
  named \<open>Column_1\<close>, for which the padding loop never ends.
\<close>

lemma process_excel_file_six_columns:
  "process_excel_file (example_env\<lparr>read_excel := Some six_columns\<rparr>) []
     = Some \<lparr>submitted = [], outcome = Inl Raised\<rparr>"
  by code_simp

lemma process_excel_file_padding_loops:
  "process_excel_file (example_env\<lparr>read_excel := Some column_1_only\<rparr>) [] = None"
  by code_simp

text \<open>
  The columns can be padded and renamed whenever the table has at most five columns and
  none of the names the padding would add is taken.
\<close>

lemma column_name_inj:
  assumes "n < 5" and "m < 5" and "column_name n = column_name m"
  shows "n = m"
proof -
  have "char_of (48 + n) = (char_of (48 + m) :: char)"
    using assms(3) by (simp add: column_name_def)
  then have "(48 + n) mod 256 = (48 + m) mod 256"
    by (simp add: char_of_eq_iff take_bit_eq_mod)
  then show "n = m" using assms(1,2) by simp
qed

lemma prepare_succeeds:
  "length (columns df0) \<le> 5 \<Longrightarrow>
   (\<forall>n. length (columns df0) \<le> n \<and> n < 5 \<longrightarrow> column_name n \<notin> set (columns df0)) \<Longrightarrow>
     \<exists>df1 df. pad_columns df0 = Some df1 \<and> set_columns df1 = Inr df"
proof (induction df0 rule: pad_columns.induct)
  case (1 df)
  show ?case
  proof (cases "length (columns df) < 5")
    case False
    then have l: "length (columns df) = 5" using "1.prems"(1) by simp
    have "pad_columns df = Some df" using False by (simp add: pad_columns.simps[of df])
    moreover have "\<exists>d. set_columns df = Inr d" using l by (simp add: set_columns_def)
    ultimately show ?thesis by blast
  next
    case True
    let ?name = "column_name (length (columns df))"
    let ?df = "add_column df ?name"
    have n: "?name \<notin> set (columns df)" using True "1.prems"(2) by simp
    have c: "columns ?df = columns df @ [?name]" by (simp add: add_column_def)
    have "\<forall>n. length (columns ?df) \<le> n \<and> n < 5 \<longrightarrow> column_name n \<notin> set (columns ?df)"
    proof (intro allI impI)
      fix k assume k: "length (columns ?df) \<le> k \<and> k < 5"
      then have "length (columns df) < k" "k < 5" using c by simp_all
      then have "column_name k \<noteq> ?name"
        using True column_name_inj[of k "length (columns df)"] by auto
      moreover have "column_name k \<notin> set (columns df)" using "1.prems"(2) k c by simp
      ultimately show "column_name k \<notin> set (columns ?df)" using c by simp
    qed
    moreover have "length (columns ?df) \<le> 5" using True c by simp
    ultimately have "\<exists>df1 d. pad_columns ?df = Some df1 \<and> set_columns df1 = Inr d"
      using True n by (intro "1.IH") simp_all
    moreover have "pad_columns df = pad_columns ?df"
      using True n by (simp add: pad_columns.simps[of df])
    ultimately show ?thesis by simp
  qed
qed

section \<open>The exclusive section of the aggregating loop\<close>






















lemma example_state_row:
  "rows (table example_state) ! 0
     = (0, [Val ''bsc'', Val ''0xabc'', Val ''$1.2M'', Val ''$500K'', Val ''$45.3K''])"
  by code_simp


end
